theory Spec2Isabelle
  imports Main "HOL-Library.Char_ord" "HOL-Library.List_Lexorder" "HOL-Library.Log_Nat"
begin

section \<open>The script \<^verbatim>\<open>visualize.py\<close>\<close>

text \<open>
  The script is a straight line of statements: a literal dict \<^verbatim>\<open>data\<close>, the table
  \<^verbatim>\<open>df = pd.DataFrame(data)\<close> re-keyed in place by \<^verbatim>\<open>df.set_index('Class Name', inplace=True)\<close>,
  the chart \<^verbatim>\<open>ax = df.plot(kind='bar', stacked=True)\<close>, its title, axis labels and legend,
  and the display. The pandas and matplotlib calls are library code; each one the script
  makes is modelled below under its own name, as the library behaves on the kind of
  argument the script passes (a dict of lists of strings or integers, a column name, a
  frame of integer columns), errors and float64 rounding included.
\<close>

subsection \<open>Values, dicts and errors\<close>

text \<open>A list element of the dict: a Python string or a Python (unbounded) integer.\<close>

datatype cell = Str string | Num int

text \<open>
  A Python dict from column name to list, in insertion order. The keys of a dict are
  unique; lookup is \<open>map_of\<close>.
\<close>

type_synonym dict = "(string \<times> cell list) list"

datatype error = ValueError | KeyError | TypeError | IndexError | NameError

subsection \<open>Lines 5 to 9: the literal data\<close>

definition data :: dict where
  "data =
    [(''Class Name'', [Str ''Glioma'', Str ''Meningioma'', Str ''No tumor'', Str ''Pituitary'']),
     (''Training'', [Num 1100, Num 1144, Num 1241, Num 1370]),
     (''Testing'', [Num 221, Num 195, Num 216, Num 225])]"

subsection \<open>Lines 12 and 15: the table\<close>

text \<open>
  A DataFrame: the row labels (with the name of the index, if it has one) and the columns
  in order, each as long as the index.
\<close>

record frame =
  index_name :: "string option"
  index :: "cell list"
  columns :: "(string \<times> cell list) list"

definition RangeIndex :: "nat \<Rightarrow> cell list" where
  "RangeIndex n = map (\<lambda>i. Num (int i)) [0..<n]"

text \<open>
  \<^verbatim>\<open>pd.DataFrame(d)\<close> for a dict of lists. pandas collects the lengths of the lists into a
  set and raises \<^verbatim>\<open>ValueError("All arrays must be of the same length")\<close> when the set has
  more than one element; otherwise the columns are the dict's items in insertion order
  and the index is \<^verbatim>\<open>RangeIndex(n)\<close> for the common length (0 for an empty dict).
\<close>

definition DataFrame :: "dict \<Rightarrow> error + frame" where
  "DataFrame d =
     (let raw_lengths = map (\<lambda>kv. length (snd kv)) d;
          lengths = remdups raw_lengths
      in if length lengths > 1 then Inl ValueError
         else Inr \<lparr>index_name = None,
                   index = RangeIndex (case lengths of [] \<Rightarrow> 0 | n # _ \<Rightarrow> n),
                   columns = d\<rparr>)"

text \<open>
  \<^verbatim>\<open>df.set_index(key, inplace=True)\<close> with the defaults \<^verbatim>\<open>drop=True\<close>,
  \<^verbatim>\<open>append=False\<close>, \<^verbatim>\<open>verify_integrity=False\<close>: a key that is not a column raises
  \<^verbatim>\<open>KeyError\<close>; otherwise the column's values become the index, named after the column,
  and the column leaves the frame. Duplicate labels are not checked. The frame is
  changed in place, which the model renders by returning the new frame.
\<close>

definition set_index :: "string \<Rightarrow> frame \<Rightarrow> error + frame" where
  "set_index key f =
     (case map_of (columns f) key of
        None \<Rightarrow> Inl KeyError
      | Some vs \<Rightarrow>
          Inr \<lparr>index_name = Some key, index = vs,
               columns = filter (\<lambda>kv. fst kv \<noteq> key) (columns f)\<rparr>)"

text \<open>Lines 12 and 15 together, as a function of the dict: the spec's \<^verbatim>\<open>build_table\<close>.\<close>

definition build_table :: "dict \<Rightarrow> error + frame" where
  "build_table d =
     (case DataFrame d of
        Inl e \<Rightarrow> Inl e
      | Inr f \<Rightarrow> set_index ''Class Name'' f)"

text \<open>
  The row-wise reading of a frame (what \<^verbatim>\<open>df.itertuples()\<close> lists): each row label with
  the row's values, column by column. Used to state what a table contains.
\<close>

definition table_entries :: "frame \<Rightarrow> (cell \<times> cell list) list" where
  "table_entries f =
     map (\<lambda>i. (index f ! i, map (\<lambda>kv. snd kv ! i) (columns f))) [0..<length (index f)]"

subsection \<open>Line 18: the stacked bar chart\<close>

record rect =
  xpos :: nat
  bottom :: int
  height :: int

definition top :: "rect \<Rightarrow> int" where
  "top r = bottom r + height r"

definition first_bottom :: "rect list \<Rightarrow> int" where
  "first_bottom rs = (case rs of [] \<Rightarrow> 0 | r # _ \<Rightarrow> bottom r)"

record legend_box =
  legend_title :: "string option"
  entries :: "string list"

text \<open>
  The axes: its texts, the tick labels under the bars (left to right), one container of
  rectangles per plotted series (labelled with the series name), and the legend.
\<close>

record axes =
  title :: string
  xlabel :: string
  ylabel :: string
  xticklabels :: "cell list"
  containers :: "(string \<times> rect list) list"
  axes_legend :: "legend_box option"

fun num_of :: "cell \<Rightarrow> int option" where
  "num_of (Num n) = Some n"
| "num_of (Str s) = None"

text \<open>
  pandas plots the numeric columns only. A list of Python integers becomes an int64
  column when all of them lie in \<open>[-2\<^sup>6\<^sup>3, 2\<^sup>6\<^sup>3)\<close>, a uint64 column when one of them
  reaches \<open>2\<^sup>6\<^sup>3\<close> and all lie in \<open>[0, 2\<^sup>6\<^sup>4)\<close>, and an object column otherwise; the empty
  list becomes an (empty) float64 column. A list holding a string is an object column.
  Object columns are left out of the plot.
\<close>

definition numeric_dtype :: "int list \<Rightarrow> bool" where
  "numeric_dtype ns =
     (if list_ex (\<lambda>v. 9223372036854775808 \<le> v) ns
      then list_all (\<lambda>v. 0 \<le> v \<and> v < 18446744073709551616) ns
      else list_all (\<lambda>v. - 9223372036854775808 \<le> v) ns)"

definition numeric_column :: "string \<times> cell list \<Rightarrow> (string \<times> int list) option" where
  "numeric_column kv =
     (case those (map num_of (snd kv)) of
        None \<Rightarrow> None
      | Some ns \<Rightarrow> if numeric_dtype ns then Some (fst kv, ns) else None)"

definition numeric_data :: "frame \<Rightarrow> (string \<times> int list) list" where
  "numeric_data f = List.map_filter numeric_column (columns f)"

text \<open>
  numpy and matplotlib hold the running sums and the rectangles' extents as float64.
  On integers a conversion, a sum or a difference in float64 is the exact result
  rounded to 53 significant bits, ties to even; up to \<open>2\<^sup>5\<^sup>3 = 9007199254740992\<close> in
  magnitude nothing is rounded. (The plotted values are below \<open>2\<^sup>6\<^sup>4\<close>, so no sum of
  them comes near the overflow of float64.)
\<close>

definition float64 :: "int \<Rightarrow> int" where
  "float64 v =
     (let a = \<bar>v\<bar>
      in if a \<le> 9007199254740992 then v
         else let e = nat (bitlen a) - 53;
                  q = a div 2 ^ e;
                  r = a mod 2 ^ e;
                  q' = (if 2 * r > 2 ^ e \<or> (2 * r = 2 ^ e \<and> odd q) then q + 1 else q)
              in sgn v * (q' * 2 ^ e))"

text \<open>
  matplotlib's \<^verbatim>\<open>Axes.bar\<close> passes the heights through \<^verbatim>\<open>_convert_dx\<close>, which computes
  each of them as \<^verbatim>\<open>(b0 + h) - b0\<close> in float64, \<^verbatim>\<open>b0\<close> being the first of the bottoms.
\<close>

definition bar_height :: "int \<Rightarrow> int \<Rightarrow> int" where
  "bar_height b0 h = float64 (float64 (b0 + float64 h) - b0)"

text \<open>
  The loop of pandas' \<^verbatim>\<open>BarPlot._make_plot\<close> with \<^verbatim>\<open>stacked=True\<close>: two running arrays,
  \<^verbatim>\<open>pos_prior\<close> and \<^verbatim>\<open>neg_prior\<close>, start at zero; a series' bar for a row starts at
  \<^verbatim>\<open>pos_prior\<close> where its value is positive and at \<^verbatim>\<open>neg_prior\<close> otherwise, and the value
  is then added to the array it started from.
\<close>

fun stack_bars :: "int list \<Rightarrow> int list \<Rightarrow> (string \<times> int list) list \<Rightarrow> (string \<times> rect list) list" where
  "stack_bars pos_prior neg_prior [] = []"
| "stack_bars pos_prior neg_prior ((label, y) # rest) =
     (let start = map (\<lambda>(v, p, n). if v > 0 then p else n) (zip y (zip pos_prior neg_prior));
          b0 = (case start of [] \<Rightarrow> 0 | b # _ \<Rightarrow> b);
          rects = map (\<lambda>(i, v, s). \<lparr>xpos = i, bottom = s, height = bar_height b0 v\<rparr>)
                    (zip [0..<length y] (zip y start));
          pos_prior' = map (\<lambda>(p, v). float64 (p + float64 (if v > 0 then v else 0)))
                         (zip pos_prior y);
          neg_prior' = map (\<lambda>(n, v). float64 (n + float64 (if v > 0 then 0 else v)))
                         (zip neg_prior y)
      in (label, rects) # stack_bars pos_prior' neg_prior' rest)"

text \<open>
  The same stacking read along one row, for stating that a category's bar is built from
  that category's own values: given the row's values series by series, the starts of
  its segments.
\<close>

fun stack_row :: "int \<Rightarrow> int \<Rightarrow> int list \<Rightarrow> int list" where
  "stack_row p n [] = []"
| "stack_row p n (v # vs) =
     (if v > 0 then p else n)
     # stack_row (float64 (p + float64 (if v > 0 then v else 0)))
         (float64 (n + float64 (if v > 0 then 0 else v))) vs"

text \<open>
  \<^verbatim>\<open>Axes.add_container\<close> gives a container whose label is empty the label
  \<^verbatim>\<open>_container\<close> followed by the number of containers the axes already holds.
\<close>

fun digit_char :: "nat \<Rightarrow> char" where
  "digit_char n = char_of (48 + n)"

fun str_nat :: "nat \<Rightarrow> string" where
  "str_nat n = (if n < 10 then [digit_char n] else str_nat (n div 10) @ [digit_char (n mod 10)])"

definition add_containers :: "(string \<times> rect list) list \<Rightarrow> (string \<times> rect list) list" where
  "add_containers cs =
     map (\<lambda>(k, c). (if fst c = [] then ''_container'' @ str_nat k else fst c, snd c))
       (zip [0..<length cs] cs)"

text \<open>
  \<^verbatim>\<open>df.plot(kind='bar', stacked=True)\<close>: \<^verbatim>\<open>TypeError("no numeric data to plot")\<close> when no
  column is numeric and \<^verbatim>\<open>IndexError\<close> when there are numeric columns but no rows;
  otherwise one bar position per row, in index order, ticked with the row labels, the
  x axis labelled with the index name, and pandas' own legend of the column names. The
  title and the y label are empty.
\<close>

definition plot_bar_stacked :: "frame \<Rightarrow> error + axes" where
  "plot_bar_stacked f =
     (let nd = numeric_data f; n = length (index f)
      in if nd = [] then Inl TypeError
         else if n = 0 then Inl IndexError
         else Inr \<lparr>title = [],
                   xlabel = (case index_name f of None \<Rightarrow> [] | Some nm \<Rightarrow> nm),
                   ylabel = [],
                   xticklabels = index f,
                   containers = add_containers (stack_bars (replicate n 0) (replicate n 0) nd),
                   axes_legend = Some \<lparr>legend_title = None, entries = map fst nd\<rparr>\<rparr>)"

subsection \<open>Lines 21 to 26: labelling\<close>

definition set_title :: "string \<Rightarrow> axes \<Rightarrow> axes" where
  "set_title t a = a\<lparr>title := t\<rparr>"

definition set_xlabel :: "string \<Rightarrow> axes \<Rightarrow> axes" where
  "set_xlabel t a = a\<lparr>xlabel := t\<rparr>"

definition set_ylabel :: "string \<Rightarrow> axes \<Rightarrow> axes" where
  "set_ylabel t a = a\<lparr>ylabel := t\<rparr>"

text \<open>
  matplotlib's \<^verbatim>\<open>ax.legend(title=t)\<close> without handles replaces the axes' legend by one
  that lists the labelled artists of the axes: every container whose label is not empty
  and does not start with an underscore.
\<close>

fun legendable :: "string \<Rightarrow> bool" where
  "legendable [] = False"
| "legendable (c # cs) = (c \<noteq> CHR ''_'')"

definition legend :: "string \<Rightarrow> axes \<Rightarrow> axes" where
  "legend t a =
     a\<lparr>axes_legend := Some \<lparr>legend_title = Some t,
                         entries = filter legendable (map fst (containers a))\<rparr>\<rparr>"

text \<open>Lines 18 to 26 as a function of the table and the four texts: the spec's \<^verbatim>\<open>render\<close>.\<close>

definition render :: "frame \<Rightarrow> string \<Rightarrow> string \<Rightarrow> string \<Rightarrow> string \<Rightarrow> error + axes" where
  "render t ti xl yl lt =
     (case plot_bar_stacked t of
        Inl e \<Rightarrow> Inl e
      | Inr a \<Rightarrow> Inr (legend lt (set_ylabel yl (set_xlabel xl (set_title ti a)))))"

subsection \<open>The script, statement by statement\<close>

text \<open>
  The script's variables. \<^verbatim>\<open>df\<close> and \<^verbatim>\<open>ax\<close> are unbound until their assignments;
  \<open>shown\<close> records that the figure has been displayed.
\<close>

record store =
  data_var :: dict
  df_var :: "frame option"
  ax_var :: "axes option"
  shown :: bool

definition line12 :: "store \<Rightarrow> error + store" where
  "line12 s =
     (case DataFrame (data_var s) of
        Inl e \<Rightarrow> Inl e
      | Inr f \<Rightarrow> Inr (s\<lparr>df_var := Some f\<rparr>))"

definition line15 :: "store \<Rightarrow> error + store" where
  "line15 s =
     (case df_var s of
        None \<Rightarrow> Inl NameError
      | Some f \<Rightarrow>
          (case set_index ''Class Name'' f of
             Inl e \<Rightarrow> Inl e
           | Inr f' \<Rightarrow> Inr (s\<lparr>df_var := Some f'\<rparr>)))"

definition line18 :: "store \<Rightarrow> error + store" where
  "line18 s =
     (case df_var s of
        None \<Rightarrow> Inl NameError
      | Some f \<Rightarrow>
          (case plot_bar_stacked f of
             Inl e \<Rightarrow> Inl e
           | Inr a \<Rightarrow> Inr (s\<lparr>ax_var := Some a\<rparr>)))"

definition on_ax :: "(axes \<Rightarrow> axes) \<Rightarrow> store \<Rightarrow> error + store" where
  "on_ax g s =
     (case ax_var s of
        None \<Rightarrow> Inl NameError
      | Some a \<Rightarrow> Inr (s\<lparr>ax_var := Some (g a)\<rparr>))"

definition line21 :: "store \<Rightarrow> error + store" where
  "line21 = on_ax (set_title ''Brain Tumor Image Dataset (Training vs Testing)'')"

definition line22 :: "store \<Rightarrow> error + store" where
  "line22 = on_ax (set_xlabel ''Tumor Class'')"

definition line23 :: "store \<Rightarrow> error + store" where
  "line23 = on_ax (set_ylabel ''Number of Images'')"

definition line26 :: "store \<Rightarrow> error + store" where
  "line26 = on_ax (legend ''Subset'')"

text \<open>
  Lines 29 and 30 lay the figure out and display it; neither touches a variable of the
  script. The geometry of the layout is not modelled.
\<close>

definition line30 :: "store \<Rightarrow> error + store" where
  "line30 s = Inr (s\<lparr>shown := True\<rparr>)"

text \<open>
  Running statements in order: the stores reached after each statement, or the first
  error raised (the script handles none).
\<close>

fun trace :: "(store \<Rightarrow> error + store) list \<Rightarrow> store \<Rightarrow> error + store list" where
  "trace [] s = Inr []"
| "trace (c # cs) s =
     (case c s of
        Inl e \<Rightarrow> Inl e
      | Inr s' \<Rightarrow>
          (case trace cs s' of
             Inl e \<Rightarrow> Inl e
           | Inr ss \<Rightarrow> Inr (s' # ss)))"

text \<open>The same run, keeping only the last store.\<close>

fun exec :: "(store \<Rightarrow> error + store) list \<Rightarrow> store \<Rightarrow> error + store" where
  "exec [] s = Inr s"
| "exec (c # cs) s =
     (case c s of
        Inl e \<Rightarrow> Inl e
      | Inr s' \<Rightarrow> exec cs s')"

definition script :: "(store \<Rightarrow> error + store) list" where
  "script = [line12, line15, line18, line21, line22, line23, line26, line30]"

text \<open>The store once lines 5 to 9 have bound \<^verbatim>\<open>data\<close>.\<close>

definition store0 :: "dict \<Rightarrow> store" where
  "store0 d = \<lparr>data_var = d, df_var = None, ax_var = None, shown = False\<rparr>"

text \<open>The table the script builds from its literal, written out.\<close>

definition df :: frame where
  "df = \<lparr>index_name = Some ''Class Name'',
         index = [Str ''Glioma'', Str ''Meningioma'', Str ''No tumor'', Str ''Pituitary''],
         columns = [(''Training'', [Num 1100, Num 1144, Num 1241, Num 1370]),
                    (''Testing'', [Num 221, Num 195, Num 216, Num 225])]\<rparr>"

text \<open>The chart the script has drawn when it reaches the display, written out.\<close>

definition ax :: axes where
  "ax = \<lparr>title = ''Brain Tumor Image Dataset (Training vs Testing)'',
         xlabel = ''Tumor Class'',
         ylabel = ''Number of Images'',
         xticklabels = [Str ''Glioma'', Str ''Meningioma'', Str ''No tumor'', Str ''Pituitary''],
         containers =
           [(''Training'', [\<lparr>xpos = 0, bottom = 0, height = 1100\<rparr>,
                            \<lparr>xpos = 1, bottom = 0, height = 1144\<rparr>,
                            \<lparr>xpos = 2, bottom = 0, height = 1241\<rparr>,
                            \<lparr>xpos = 3, bottom = 0, height = 1370\<rparr>]),
            (''Testing'', [\<lparr>xpos = 0, bottom = 1100, height = 221\<rparr>,
                           \<lparr>xpos = 1, bottom = 1144, height = 195\<rparr>,
                           \<lparr>xpos = 2, bottom = 1241, height = 216\<rparr>,
                           \<lparr>xpos = 3, bottom = 1370, height = 225\<rparr>])],
         axes_legend = Some \<lparr>legend_title = Some ''Subset'',
                               entries = [''Training'', ''Testing'']\<rparr>\<rparr>"

section \<open>Properties\<close>

lemma DataFrame_data:
  "DataFrame data =
     Inr \<lparr>index_name = None, index = [Num 0, Num 1, Num 2, Num 3], columns = data\<rparr>"
  by (simp add: DataFrame_def data_def RangeIndex_def upt_rec)

lemma build_table_data: "build_table data = Inr df"
  by (simp add: build_table_def DataFrame_data set_index_def) (simp add: data_def df_def)


subsection \<open>The constructor's length check\<close>

lemma length_remdups_gt1:
  assumes "x \<in> set xs" and "y \<in> set xs" and "x \<noteq> y"
  shows "1 < length (remdups xs)"
proof -
  have "{x, y} \<subseteq> set xs" using assms by simp
  then have "card {x, y} \<le> card (set xs)" by (intro card_mono) simp_all
  moreover have "card {x, y} = 2" using assms(3) by simp
  ultimately show ?thesis by (simp add: length_remdups_card_conv)
qed

lemma remdups_all_equal:
  "list_all (\<lambda>v. v = n) xs \<Longrightarrow> remdups xs = (if xs = [] then [] else [n])"
proof (induction xs)
  case Nil
  then show ?case by simp
next
  case (Cons a xs)
  then show ?case by (cases xs) auto
qed

lemma DataFrame_mismatch:
  assumes "(k, vs) \<in> set d" and "(k', vs') \<in> set d" and "length vs \<noteq> length vs'"
  shows "DataFrame d = Inl ValueError"
proof -
  let ?raw = "map (\<lambda>kv. length (snd kv)) d"
  have "length vs \<in> set ?raw" "length vs' \<in> set ?raw"
    using assms(1,2) by force+
  then have "1 < length (remdups ?raw)"
    using assms(3) by (rule length_remdups_gt1)
  then show ?thesis by (simp add: DataFrame_def)
qed

lemma DataFrame_uniform:
  assumes "d \<noteq> []" and "list_all (\<lambda>kv. length (snd kv) = n) d"
  shows "DataFrame d = Inr \<lparr>index_name = None, index = RangeIndex n, columns = d\<rparr>"
proof -
  have "list_all (\<lambda>v. v = n) (map (\<lambda>kv. length (snd kv)) d)"
    using assms(2) by (simp add: list_all_iff)
  then have "remdups (map (\<lambda>kv. length (snd kv)) d) = [n]"
    using assms(1) by (simp add: remdups_all_equal)
  then show ?thesis by (simp add: DataFrame_def)
qed

lemma DataFrame_Inr_lengths:
  assumes "DataFrame d = Inr f" and "(k, vs) \<in> set d" and "(k', vs') \<in> set d"
  shows "length vs' = length vs"
proof (rule ccontr)
  assume "length vs' \<noteq> length vs"
  with assms(3,2) have "DataFrame d = Inl ValueError"
    by (rule DataFrame_mismatch)
  with assms(1) show False by simp
qed

lemma DataFrame_Inr_columns:
  "DataFrame d = Inr f \<Longrightarrow> columns f = d \<and> index_name f = None"
  by (cases "1 < length (remdups (map (\<lambda>kv. length (snd kv)) d))")
     (auto simp: DataFrame_def)

lemma DataFrame_Inr_index:
  assumes "DataFrame d = Inr f" and "(k, vs) \<in> set d"
  shows "index f = RangeIndex (length vs)"
proof -
  have "\<forall>kv \<in> set d. length (snd kv) = length vs"
  proof
    fix kv assume "kv \<in> set d"
    then have "(fst kv, snd kv) \<in> set d" by simp
    with assms show "length (snd kv) = length vs"
      by (rule DataFrame_Inr_lengths)
  qed
  then have "list_all (\<lambda>kv. length (snd kv) = length vs) d"
    by (simp add: list_all_iff)
  moreover have "d \<noteq> []" using assms(2) by auto
  ultimately have "DataFrame d =
      Inr \<lparr>index_name = None, index = RangeIndex (length vs), columns = d\<rparr>"
    by (rule DataFrame_uniform [rotated])
  with assms(1) show ?thesis by auto
qed

text \<open>
  C3. Whenever the dict holds a series whose length differs from the number of category
  names (for instance four names and a three-element series), \<open>build_table\<close> produces no
  table: the DataFrame constructor raises \<^verbatim>\<open>ValueError\<close>.
\<close>

theorem build_table_rejects_length_mismatch:
  assumes "map_of d ''Class Name'' = Some cats"
    and "(k, vs) \<in> set d"
    and "length vs \<noteq> length cats"
  shows "build_table d = Inl ValueError"
proof -
  have "(''Class Name'', cats) \<in> set d"
    using assms(1) by (rule map_of_SomeD)
  with assms(2) have "DataFrame d = Inl ValueError"
    using assms(3) by (rule DataFrame_mismatch)
  then show ?thesis by (simp add: build_table_def)
qed


theorem build_table_rejects_length_mismatch_witness:
  "map_of [(''Class Name'', [Str ''Glioma'', Str ''Meningioma'', Str ''No tumor'', Str ''Pituitary'']),
           (''Training'', [Num 1100, Num 1144, Num 1241])] ''Class Name''
     = Some [Str ''Glioma'', Str ''Meningioma'', Str ''No tumor'', Str ''Pituitary'']
   \<and> length [Num 1100, Num 1144, Num 1241] \<noteq>
       length [Str ''Glioma'', Str ''Meningioma'', Str ''No tumor'', Str ''Pituitary'']
   \<and> build_table
        [(''Class Name'', [Str ''Glioma'', Str ''Meningioma'', Str ''No tumor'', Str ''Pituitary'']),
         (''Training'', [Num 1100, Num 1144, Num 1241])] = Inl ValueError"
  using build_table_rejects_length_mismatch
    [of "[(''Class Name'', [Str ''Glioma'', Str ''Meningioma'', Str ''No tumor'', Str ''Pituitary'']),
          (''Training'', [Num 1100, Num 1144, Num 1241])]"
        "[Str ''Glioma'', Str ''Meningioma'', Str ''No tumor'', Str ''Pituitary'']"
        "''Training''" "[Num 1100, Num 1144, Num 1241]"]
  by simp

subsection \<open>What the table holds\<close>

lemma build_table_Inr:
  assumes "map_of d ''Class Name'' = Some cats" and "build_table d = Inr t"
  shows "t = \<lparr>index_name = Some ''Class Name'', index = cats,
              columns = filter (\<lambda>kv. fst kv \<noteq> ''Class Name'') d\<rparr>"
proof (cases "DataFrame d")
  case (Inl e)
  with assms(2) show ?thesis by (simp add: build_table_def)
next
  case (Inr f)
  then have "columns f = d" by (simp add: DataFrame_Inr_columns)
  with Inr assms show ?thesis by (simp add: build_table_def set_index_def)
qed

lemma build_table_valid:
  assumes "map_of d ''Class Name'' = Some cats"
    and "list_all (\<lambda>kv. length (snd kv) = length cats) d"
  shows "build_table d =
      Inr \<lparr>index_name = Some ''Class Name'', index = cats,
           columns = filter (\<lambda>kv. fst kv \<noteq> ''Class Name'') d\<rparr>"
proof -
  have "d \<noteq> []" using assms(1) by auto
  then have "DataFrame d =
      Inr \<lparr>index_name = None, index = RangeIndex (length cats), columns = d\<rparr>"
    using assms(2) by (rule DataFrame_uniform)
  then show ?thesis using assms(1) by (simp add: build_table_def set_index_def)
qed

lemma length_table_entries: "length (table_entries t) = length (index t)"
  by (simp add: table_entries_def)

text \<open>
  C6. For every valid input, that is a dict with a \<^verbatim>\<open>Class Name\<close> list and every list as
  long as it, \<open>build_table\<close> returns a table, and the table has as many categories (row
  labels, rows) as the input has category names. Uniqueness of the names is not needed.
\<close>

theorem build_table_category_count:
  assumes "map_of d ''Class Name'' = Some cats"
    and "list_all (\<lambda>kv. length (snd kv) = length cats) d"
  shows "\<exists>t. build_table d = Inr t \<and> length (index t) = length cats
            \<and> length (table_entries t) = length cats"
  using build_table_valid [OF assms] by (simp add: length_table_entries)

theorem build_table_category_count_witness:
  "map_of data ''Class Name'' =
      Some [Str ''Glioma'', Str ''Meningioma'', Str ''No tumor'', Str ''Pituitary'']
   \<and> list_all (\<lambda>kv. length (snd kv) = 4) data
   \<and> (\<exists>t. build_table data = Inr t \<and> length (index t) = 4 \<and> length (table_entries t) = 4)"
  using build_table_category_count
    [of data "[Str ''Glioma'', Str ''Meningioma'', Str ''No tumor'', Str ''Pituitary'']"]
  by (simp add: data_def eval_nat_numeral)

text \<open>
  C1. From the literal dict of the script, \<open>build_table\<close> produces the table with the
  columns Training and Testing and exactly the four rows Glioma (1100, 221),
  Meningioma (1144, 195), No tumor (1241, 216) and Pituitary (1370, 225).
\<close>

theorem literal_table:
  "build_table data = Inr df
   \<and> map fst (columns df) = [''Training'', ''Testing'']
   \<and> table_entries df =
        [(Str ''Glioma'', [Num 1100, Num 221]),
         (Str ''Meningioma'', [Num 1144, Num 195]),
         (Str ''No tumor'', [Num 1241, Num 216]),
         (Str ''Pituitary'', [Num 1370, Num 225])]"
  by (simp add: build_table_data) (simp add: df_def table_entries_def upt_rec)

text \<open>
  C5. In the literal dict the category list and both series have four elements each, and
  the table pairs them by position: row \<open>i\<close> is the \<open>i\<close>-th category name with the \<open>i\<close>-th
  Training value and the \<open>i\<close>-th Testing value.
\<close>

theorem data_model_parallel:
  "map (\<lambda>kv. length (snd kv)) data = [4, 4, 4]
   \<and> build_table data = Inr df
   \<and> length (index df) = 4
   \<and> table_entries df =
        map (\<lambda>i. (snd (data ! 0) ! i, [snd (data ! 1) ! i, snd (data ! 2) ! i])) [0..<4]"
  by (simp add: build_table_data) (simp add: data_def df_def table_entries_def upt_rec)

subsection \<open>The bars of the chart\<close>

declare str_nat.simps [simp del]

lemma float64_exact: "\<bar>v\<bar> \<le> 9007199254740992 \<Longrightarrow> float64 v = v"
  by (simp add: float64_def)

lemma bar_height_exact:
  assumes "\<bar>b0\<bar> + \<bar>h\<bar> \<le> 9007199254740992"
  shows "bar_height b0 h = h"
proof -
  have "float64 h = h"
    using assms by (intro float64_exact) linarith
  moreover have "float64 (b0 + h) = b0 + h"
    using assms by (intro float64_exact) linarith
  moreover have "float64 h = h"
    using assms by (intro float64_exact) linarith
  ultimately show ?thesis
    by (simp add: bar_height_def)
qed

lemma those_num_of: "those (map num_of vs) = Some ns \<Longrightarrow> vs = map Num ns"
proof (induction vs arbitrary: ns)
  case Nil
  then show ?case by simp
next
  case (Cons v vs)
  then show ?case by (cases v) (auto split: option.splits)
qed

lemma numeric_column_Some:
  "numeric_column kv = Some (k, ns) \<Longrightarrow> k = fst kv \<and> snd kv = map Num ns"
  by (auto simp: numeric_column_def dest: those_num_of split: option.splits if_splits)

lemma set_map_filter:
  "set (List.map_filter f xs) = {y. \<exists>x \<in> set xs. f x = Some y}"
  by (induction xs) (auto simp: map_filter_simps split: option.splits)

lemma numeric_data_columns:
  "list_all (\<lambda>kn. (fst kn, map Num (snd kn)) \<in> set (columns f)) (numeric_data f)"
proof -
  have "(fst kn, map Num (snd kn)) \<in> set (columns f)" if "kn \<in> set (numeric_data f)" for kn
  proof -
    from that obtain kv where kv: "kv \<in> set (columns f)" "numeric_column kv = Some kn"
      by (auto simp: numeric_data_def set_map_filter)
    then have "numeric_column kv = Some (fst kn, snd kn)" by simp
    then have "fst kn = fst kv \<and> snd kv = map Num (snd kn)"
      by (rule numeric_column_Some)
    then have "(fst kn, map Num (snd kn)) = kv" by (simp add: prod_eq_iff)
    with kv(1) show ?thesis by simp
  qed
  then show ?thesis by (simp add: list_all_iff)
qed

lemma numeric_data_lengths:
  assumes "list_all (\<lambda>kv. length (snd kv) = n) (columns f)"
  shows "list_all (\<lambda>kv. length (snd kv) = n) (numeric_data f)"
proof -
  have "length (snd kn) = n" if "kn \<in> set (numeric_data f)" for kn
  proof -
    from numeric_data_columns that have "(fst kn, map Num (snd kn)) \<in> set (columns f)"
      by (simp add: list_all_iff)
    with assms have "length (map Num (snd kn)) = n"
      by (fastforce simp: list_all_iff)
    then show ?thesis by simp
  qed
  then show ?thesis by (simp add: list_all_iff)
qed

lemma map_snd_add_containers: "map snd (add_containers cs) = map snd cs"
  by (rule nth_equalityI) (simp_all add: add_containers_def)

lemma first_bottom_map:
  "first_bottom rs = (case map bottom rs of [] \<Rightarrow> 0 | b # _ \<Rightarrow> b)"
  by (cases rs) (simp_all add: first_bottom_def)

lemma stack_bars_xpos:
  assumes "length pp = n" and "length np = n"
    and "list_all (\<lambda>kv. length (snd kv) = n) nd"
  shows "list_all (\<lambda>rs. map xpos rs = [0..<n]) (map snd (stack_bars pp np nd))"
  using assms
proof (induction nd arbitrary: pp np)
  case Nil
  then show ?case by simp
next
  case (Cons c nd)
  obtain label y where c: "c = (label, y)" by (cases c)
  from Cons.prems c have len: "length y = n" by simp
  let ?start = "map (\<lambda>(v, p, n). if v > 0 then p else n) (zip y (zip pp np))"
  let ?b0 = "case ?start of [] \<Rightarrow> 0 | b # _ \<Rightarrow> b"
  have "map xpos (map (\<lambda>(i, v, s). \<lparr>xpos = i, bottom = s, height = bar_height ?b0 v\<rparr>)
            (zip [0..<length y] (zip y ?start))) = map fst (zip [0..<length y] (zip y ?start))"
    by (simp add: case_prod_unfold)
  also have "\<dots> = [0..<n]"
    using len Cons.prems(1,2) by (simp add: map_fst_zip)
  finally have first: "map xpos (map (\<lambda>(i, v, s). \<lparr>xpos = i, bottom = s, height = bar_height ?b0 v\<rparr>)
            (zip [0..<length y] (zip y ?start))) = [0..<n]" .
  have rest: "list_all (\<lambda>rs. map xpos rs = [0..<n])
       (map snd (stack_bars (map (\<lambda>(p, v). float64 (p + float64 (if v > 0 then v else 0))) (zip pp y))
                   (map (\<lambda>(n, v). float64 (n + float64 (if v > 0 then 0 else v))) (zip np y)) nd))"
    using Cons.prems len by (intro Cons.IH) simp_all
  show ?case using first rest by (simp add: c Let_def)
qed

text \<open>
  The heights of a series' bars are the series' values in row order, each as
  \<^verbatim>\<open>_convert_dx\<close> computes it from the first bottom of the series.
\<close>

lemma stack_bars_heights:
  assumes "length pp = n" and "length np = n"
    and "list_all (\<lambda>kv. length (snd kv) = n) nd"
  shows "list_all2 (\<lambda>rs kn. map height rs = map (bar_height (first_bottom rs)) (snd kn))
           (map snd (stack_bars pp np nd)) nd"
  using assms
proof (induction nd arbitrary: pp np)
  case Nil
  then show ?case by simp
next
  case (Cons c nd)
  obtain label y where c: "c = (label, y)" by (cases c)
  from Cons.prems c have len: "length y = n" by simp
  let ?start = "map (\<lambda>(v, p, n). if v > 0 then p else n) (zip y (zip pp np))"
  let ?b0 = "case ?start of [] \<Rightarrow> 0 | b # _ \<Rightarrow> b"
  let ?rects = "map (\<lambda>(i, v, s). \<lparr>xpos = i, bottom = s, height = bar_height ?b0 v\<rparr>)
            (zip [0..<length y] (zip y ?start))"
  have lstart: "length ?start = n"
    using len Cons.prems(1,2) by simp
  have "map height ?rects = map (bar_height ?b0) (map fst (map snd (zip [0..<length y] (zip y ?start))))"
    by (simp add: case_prod_unfold)
  also have "\<dots> = map (bar_height ?b0) y"
    using len lstart by (simp add: map_snd_zip map_fst_zip)
  finally have h: "map height ?rects = map (bar_height ?b0) y" .
  have "map bottom ?rects = map snd (map snd (zip [0..<length y] (zip y ?start)))"
    by (simp add: case_prod_unfold)
  also have "\<dots> = ?start"
    using len lstart by (simp add: map_snd_zip)
  finally have b: "map bottom ?rects = ?start" .
  have fb: "first_bottom ?rects = ?b0"
    by (subst first_bottom_map) (simp only: b)
  have first: "map height ?rects = map (bar_height (first_bottom ?rects)) y"
    using h fb by simp
  have rest: "list_all2 (\<lambda>rs kn. map height rs = map (bar_height (first_bottom rs)) (snd kn))
       (map snd (stack_bars (map (\<lambda>(p, v). float64 (p + float64 (if v > 0 then v else 0))) (zip pp y))
                   (map (\<lambda>(n, v). float64 (n + float64 (if v > 0 then 0 else v))) (zip np y)) nd)) nd"
    using Cons.prems len by (intro Cons.IH) simp_all
  show ?case using first rest by (simp add: c Let_def)
qed

text \<open>
  The bar over a row is stacked from that row's values alone: the segment of the
  \<open>k\<close>-th series over row \<open>i\<close> starts where the row-wise stacking of row \<open>i\<close> puts it.
\<close>

lemma stack_bars_bottom:
  assumes "length pp = n" and "length np = n"
    and "list_all (\<lambda>kv. length (snd kv) = n) nd"
    and "k < length nd" and "i < n"
  shows "bottom (snd (stack_bars pp np nd ! k) ! i) =
           stack_row (pp ! i) (np ! i) (map (\<lambda>kn. snd kn ! i) nd) ! k"
  using assms
proof (induction nd arbitrary: pp np k)
  case Nil
  then show ?case by simp
next
  case (Cons c nd)
  obtain label y where c: "c = (label, y)" by (cases c)
  from Cons.prems c have len: "length y = n" by simp
  let ?pp = "map (\<lambda>(p, v). float64 (p + float64 (if v > 0 then v else 0))) (zip pp y)"
  let ?np = "map (\<lambda>(n, v). float64 (n + float64 (if v > 0 then 0 else v))) (zip np y)"
  show ?case
  proof (cases k)
    case 0
    then show ?thesis
      using len Cons.prems(1,2,5) by (simp add: c Let_def)
  next
    case (Suc k')
    have "bottom (snd (stack_bars ?pp ?np nd ! k') ! i) =
            stack_row (?pp ! i) (?np ! i) (map (\<lambda>kn. snd kn ! i) nd) ! k'"
      using Cons.prems len Suc by (intro Cons.IH) simp_all
    moreover have "?pp ! i = float64 (pp ! i + float64 (if y ! i > 0 then y ! i else 0))"
      and "?np ! i = float64 (np ! i + float64 (if y ! i > 0 then 0 else y ! i))"
      using len Cons.prems(1,2,5) by simp_all
    ultimately show ?thesis
      by (simp add: c Let_def Suc)
  qed
qed

lemma snd_add_containers_nth:
  "k < length cs \<Longrightarrow> snd (add_containers cs ! k) = snd (cs ! k)"
  by (simp add: add_containers_def)

lemma length_stack_bars: "length (stack_bars pp np nd) = length nd"
  by (induction nd arbitrary: pp np) (auto simp: Let_def)

text \<open>
  Where every plotted value is positive and the values are small enough for float64 to
  hold every sum exactly, the stacking is cumulative: the bar of the \<open>k\<close>-th series over
  row \<open>i\<close> starts at the sum of the earlier series' values of that row and is as high as
  the series' value there. (A value that is not positive starts at \<^verbatim>\<open>neg_prior\<close>
  instead.)
\<close>

lemma stack_step_exact:
  assumes "0 \<le> p" and "p \<le> int c * B" and "0 < v" and "v \<le> B"
    and "(int c + 1) * B \<le> 9007199254740992"
  shows "float64 (p + float64 v) = p + v" and "p + v \<le> int (Suc c) * B"
proof -
  have cB: "int c * B + B = (int c + 1) * B"
    by (simp add: algebra_simps)
  have "0 \<le> int c * B" using assms(1,2) by linarith
  then have vb: "v \<le> 9007199254740992" using assms(4,5) cB by linarith
  then have fv: "float64 v = v" using assms(3) by (intro float64_exact) linarith
  have "p + v \<le> 9007199254740992" using assms(2,4,5) cB by linarith
  then have "float64 (p + v) = p + v" using assms(1,3) by (intro float64_exact) linarith
  with fv show "float64 (p + float64 v) = p + v" by simp
  show "p + v \<le> int (Suc c) * B" using assms(2,4) cB by (simp add: algebra_simps)
qed

lemma bar_height_small:
  assumes "0 \<le> q" and "q \<le> int c * B" and "0 < v" and "v \<le> B"
    and "(int c + 1) * B \<le> 9007199254740992"
  shows "bar_height q v = v"
proof -
  have "int c * B + B = (int c + 1) * B"
    by (simp add: algebra_simps)
  then have "\<bar>q\<bar> + \<bar>v\<bar> \<le> 9007199254740992"
    using assms by linarith
  then show ?thesis by (rule bar_height_exact)
qed

lemma case_list_nth0: "xs \<noteq> [] \<Longrightarrow> (case xs of [] \<Rightarrow> z | b # _ \<Rightarrow> b) = xs ! 0"
  by (cases xs) simp_all

lemma stack_bars_cumulative:
  assumes "length pp = n" and "length np = n"
    and "list_all (\<lambda>kv. length (snd kv) = n \<and> list_all (\<lambda>v. 0 < v \<and> v \<le> B) (snd kv)) nd"
    and "list_all (\<lambda>p. 0 \<le> p \<and> p \<le> int c * B) pp"
    and "(int c + int (length nd)) * B \<le> 9007199254740992"
    and "k < length nd" and "i < n"
  shows "snd (stack_bars pp np nd ! k) ! i =
           \<lparr>xpos = i, bottom = pp ! i + (\<Sum>j<k. snd (nd ! j) ! i), height = snd (nd ! k) ! i\<rparr>"
  using assms
proof (induction nd arbitrary: pp np k c)
  case Nil
  then show ?case by simp
next
  case (Cons c0 nd)
  obtain label y where c0: "c0 = (label, y)" by (cases c0)
  from Cons.prems c0 have len: "length y = n" and vals: "list_all (\<lambda>v. 0 < v \<and> v \<le> B) y"
    by simp_all
  have y: "0 < y ! j \<and> y ! j \<le> B" if "j < n" for j
    using vals len that by (simp add: list_all_length)
  have p: "0 \<le> pp ! j \<and> pp ! j \<le> int c * B" if "j < n" for j
    using Cons.prems(1,4) that by (simp add: list_all_length)
  from y [OF \<open>i < n\<close>] have B: "0 \<le> B" by linarith
  have "(int c + 1) * B \<le> (int c + int (length (c0 # nd))) * B"
    using B by (intro mult_right_mono) simp_all
  with Cons.prems(5) have bound: "(int c + 1) * B \<le> 9007199254740992"
    by linarith
  let ?start = "map (\<lambda>(v, p, n). if v > 0 then p else n) (zip y (zip pp np))"
  let ?pp = "map (\<lambda>(p, v). float64 (p + float64 (if v > 0 then v else 0))) (zip pp y)"
  let ?np = "map (\<lambda>(n, v). float64 (n + float64 (if v > 0 then 0 else v))) (zip np y)"
  have start: "?start ! j = pp ! j" if "j < n" for j
    using that len Cons.prems(1,2) y [OF that] by simp
  have pp': "?pp ! j = pp ! j + y ! j" if "j < n" for j
    using that len Cons.prems(1) y [OF that] p [OF that] bound
    by (simp add: stack_step_exact(1) [of _ c B])
  show ?case
  proof (cases k)
    case 0
    have n0: "0 < n" using \<open>i < n\<close> by simp
    have "?start \<noteq> []" using n0 len Cons.prems(1,2) by auto
    then have "(case ?start of [] \<Rightarrow> 0 | b # _ \<Rightarrow> b) = ?start ! 0"
      by (rule case_list_nth0)
    also have "\<dots> = pp ! 0" using n0 by (rule start)
    finally have b0: "(case ?start of [] \<Rightarrow> 0 | b # _ \<Rightarrow> b) = pp ! 0" .
    have h: "bar_height (pp ! 0) (y ! i) = y ! i"
      using p [OF n0] y [OF \<open>i < n\<close>] bound by (intro bar_height_small [of _ c B]) simp_all
    have "snd (stack_bars pp np (c0 # nd) ! 0) ! i =
            \<lparr>xpos = i, bottom = ?start ! i, height = bar_height (pp ! 0) (y ! i)\<rparr>"
      using len Cons.prems(1,2,7) by (simp add: c0 Let_def b0)
    with h start [OF \<open>i < n\<close>] 0 show ?thesis by (simp add: c0)
  next
    case (Suc k')
    have "list_all (\<lambda>p. 0 \<le> p \<and> p \<le> int (Suc c) * B) ?pp"
    proof -
      have "0 \<le> ?pp ! j \<and> ?pp ! j \<le> int (Suc c) * B" if "j < n" for j
        using pp' [OF that] y [OF that] p [OF that] bound
          stack_step_exact(2) [of "pp ! j" c B "y ! j"] by simp
      then show ?thesis using len Cons.prems(1) by (simp add: list_all_length)
    qed
    moreover have "(int (Suc c) + int (length nd)) * B \<le> 9007199254740992"
      using Cons.prems(5) by (simp add: algebra_simps)
    ultimately have "snd (stack_bars ?pp ?np nd ! k') ! i =
            \<lparr>xpos = i, bottom = ?pp ! i + (\<Sum>j<k'. snd (nd ! j) ! i), height = snd (nd ! k') ! i\<rparr>"
      using Cons.prems len Suc by (intro Cons.IH [of ?pp ?np "Suc c" k']) simp_all
    moreover have "(\<Sum>j<Suc k'. snd ((c0 # nd) ! j) ! i) = y ! i + (\<Sum>j<k'. snd (nd ! j) ! i)"
      by (subst sum.lessThan_Suc_shift) (simp add: c0)
    ultimately show ?thesis
      using pp' [OF \<open>i < n\<close>] by (simp add: c0 Let_def Suc)
  qed
qed

lemma numeric_data_df:
  "numeric_data df = [(''Training'', [1100, 1144, 1241, 1370]), (''Testing'', [221, 195, 216, 225])]"
  by (simp add: numeric_data_def map_filter_simps numeric_column_def numeric_dtype_def df_def)

text \<open>The chart as pandas hands it to the script, before line 21.\<close>

lemma plot_bar_stacked_df:
  "plot_bar_stacked df =
     Inr (ax\<lparr>title := [], xlabel := ''Class Name'', ylabel := [],
             axes_legend := Some \<lparr>legend_title = None, entries = [''Training'', ''Testing'']\<rparr>\<rparr>)"
  by (simp add: plot_bar_stacked_def numeric_data_df Let_def add_containers_def
        bar_height_def)
     (simp add: df_def ax_def float64_exact)

text \<open>
  C2. In the chart of the script's table every Training segment starts at 0, every
  Testing segment starts at the Training value of its category, so each segment starts
  at the sum of the values of the series declared before it, and the top of the stack
  over category \<open>i\<close> is Training[i] + Testing[i]: 1321 for Glioma, then 1339, 1457, 1595.
\<close>

theorem stacked_chart_of_script:
  "case plot_bar_stacked df of
     Inl e \<Rightarrow> False
   | Inr a \<Rightarrow>
       map fst (containers a) = [''Training'', ''Testing'']
       \<and> map (\<lambda>c. map xpos (snd c)) (containers a) = [[0, 1, 2, 3], [0, 1, 2, 3]]
       \<and> map (\<lambda>c. map bottom (snd c)) (containers a) = [[0, 0, 0, 0], [1100, 1144, 1241, 1370]]
       \<and> map (\<lambda>c. map height (snd c)) (containers a) =
            [[1100, 1144, 1241, 1370], [221, 195, 216, 225]]
       \<and> map (\<lambda>c. map bottom (snd c)) (containers a) =
            map (\<lambda>k. map (\<lambda>i. \<Sum>j<k. snd (numeric_data df ! j) ! i) [0..<4]) [0..<2]
       \<and> map top (snd (last (containers a))) =
            map (\<lambda>i. snd (numeric_data df ! 0) ! i + snd (numeric_data df ! 1) ! i) [0..<4]
       \<and> map top (snd (last (containers a))) = [1321, 1339, 1457, 1595]"
  by (simp add: plot_bar_stacked_df)
     (simp add: ax_def numeric_data_df top_def upt_rec lessThan_Suc)


subsection \<open>The order of the categories\<close>

lemma build_table_column_lengths:
  assumes "map_of d ''Class Name'' = Some cats" and "build_table d = Inr t"
  shows "list_all (\<lambda>kv. length (snd kv) = length cats) (columns t)"
proof (cases "DataFrame d")
  case (Inl e)
  with assms(2) show ?thesis by (simp add: build_table_def)
next
  case (Inr f)
  have cn: "(''Class Name'', cats) \<in> set d"
    using assms(1) by (rule map_of_SomeD)
  have "\<forall>kv \<in> set d. length (snd kv) = length cats"
  proof
    fix kv assume "kv \<in> set d"
    then have "(fst kv, snd kv) \<in> set d" by simp
    with Inr cn show "length (snd kv) = length cats"
      by (rule DataFrame_Inr_lengths)
  qed
  then show ?thesis
    by (simp add: build_table_Inr [OF assms] list_all_iff)
qed

text \<open>
  C4. The categories of the table are the input's category sequence in its declaration
  order, whatever that order is: nothing is sorted, and every row keeps the values
  declared at its position. The bars follow that order left to right: the tick labels
  are the categories as declared, every series has its bars at the positions 0, 1, ...,
  the bar at a position is as high as the series' value declared at that position (as
  matplotlib computes the height from it), and it starts where the stacking of that
  position's own row puts it.
\<close>

theorem build_table_keeps_declaration_order:
  assumes "map_of d ''Class Name'' = Some cats" and "build_table d = Inr t"
  shows "index t = cats
       \<and> columns t = filter (\<lambda>kv. fst kv \<noteq> ''Class Name'') d
       \<and> table_entries t =
           map (\<lambda>i. (cats ! i, map (\<lambda>kv. snd kv ! i) (filter (\<lambda>kv. fst kv \<noteq> ''Class Name'') d)))
             [0..<length cats]
       \<and> list_all (\<lambda>kn. (fst kn, map Num (snd kn)) \<in> set d) (numeric_data t)
       \<and> (\<forall>a. plot_bar_stacked t = Inr a \<longrightarrow>
              xticklabels a = cats
            \<and> list_all (\<lambda>rs. map xpos rs = [0..<length cats]) (map snd (containers a))
            \<and> list_all2 (\<lambda>rs kn. map height rs = map (bar_height (first_bottom rs)) (snd kn))
                 (map snd (containers a)) (numeric_data t)
            \<and> (\<forall>k < length (numeric_data t). \<forall>i < length cats.
                  bottom (snd (containers a ! k) ! i) =
                    stack_row 0 0 (map (\<lambda>kn. snd kn ! i) (numeric_data t)) ! k))"
proof -
  have t: "t = \<lparr>index_name = Some ''Class Name'', index = cats,
              columns = filter (\<lambda>kv. fst kv \<noteq> ''Class Name'') d\<rparr>"
    using assms by (rule build_table_Inr)
  then have idx: "index t = cats"
    and cols: "columns t = filter (\<lambda>kv. fst kv \<noteq> ''Class Name'') d"
    by simp_all
  have rows: "table_entries t =
           map (\<lambda>i. (cats ! i, map (\<lambda>kv. snd kv ! i) (filter (\<lambda>kv. fst kv \<noteq> ''Class Name'') d)))
             [0..<length cats]"
    by (simp add: table_entries_def idx cols)
  have "list_all (\<lambda>kn. (fst kn, map Num (snd kn)) \<in> set (columns t)) (numeric_data t)"
    by (rule numeric_data_columns)
  then have vals: "list_all (\<lambda>kn. (fst kn, map Num (snd kn)) \<in> set d) (numeric_data t)"
    by (simp add: cols list_all_iff)
  have lens: "list_all (\<lambda>kv. length (snd kv) = length cats) (numeric_data t)"
    using build_table_column_lengths [OF assms] by (rule numeric_data_lengths)
  let ?bars = "stack_bars (replicate (length cats) 0) (replicate (length cats) 0) (numeric_data t)"
  have xs: "list_all (\<lambda>rs. map xpos rs = [0..<length cats]) (map snd ?bars)"
    using lens by (intro stack_bars_xpos) simp_all
  have hs: "list_all2 (\<lambda>rs kn. map height rs = map (bar_height (first_bottom rs)) (snd kn))
              (map snd ?bars) (numeric_data t)"
    using lens by (intro stack_bars_heights [of _ "length cats"]) simp_all
  have bs: "bottom (snd (add_containers ?bars ! k) ! i) =
              stack_row 0 0 (map (\<lambda>kn. snd kn ! i) (numeric_data t)) ! k"
    if "k < length (numeric_data t)" and "i < length cats" for k i
  proof -
    have "bottom (snd (?bars ! k) ! i) =
            stack_row (replicate (length cats) 0 ! i) (replicate (length cats) 0 ! i)
              (map (\<lambda>kn. snd kn ! i) (numeric_data t)) ! k"
      using lens that by (intro stack_bars_bottom [of _ "length cats"]) simp_all
    with that show ?thesis
      by (simp add: snd_add_containers_nth length_stack_bars)
  qed
  have "xticklabels a = cats
      \<and> list_all (\<lambda>rs. map xpos rs = [0..<length cats]) (map snd (containers a))
      \<and> list_all2 (\<lambda>rs kn. map height rs = map (bar_height (first_bottom rs)) (snd kn))
           (map snd (containers a)) (numeric_data t)
      \<and> (\<forall>k < length (numeric_data t). \<forall>i < length cats.
            bottom (snd (containers a ! k) ! i) =
              stack_row 0 0 (map (\<lambda>kn. snd kn ! i) (numeric_data t)) ! k)"
    if "plot_bar_stacked t = Inr a" for a
  proof -
    from that have "xticklabels a = cats" and "containers a = add_containers ?bars"
      by (auto simp: plot_bar_stacked_def Let_def idx split: if_splits)
    with xs hs bs show ?thesis by (simp add: map_snd_add_containers)
  qed
  with idx cols rows vals show ?thesis by blast
qed

theorem build_table_keeps_declaration_order_witness:
  "map_of data ''Class Name''
     = Some [Str ''Glioma'', Str ''Meningioma'', Str ''No tumor'', Str ''Pituitary'']
   \<and> build_table data = Inr df
   \<and> index df = [Str ''Glioma'', Str ''Meningioma'', Str ''No tumor'', Str ''Pituitary'']
   \<and> plot_bar_stacked df =
       Inr (ax\<lparr>title := [], xlabel := ''Class Name'', ylabel := [],
               axes_legend := Some \<lparr>legend_title = None, entries = [''Training'', ''Testing'']\<rparr>\<rparr>)
   \<and> xticklabels ax = [Str ''Glioma'', Str ''Meningioma'', Str ''No tumor'', Str ''Pituitary'']
   \<and> map (\<lambda>c. map xpos (snd c)) (containers ax) = [[0, 1, 2, 3], [0, 1, 2, 3]]
   \<and> map (\<lambda>c. map height (snd c)) (containers ax) = [[1100, 1144, 1241, 1370], [221, 195, 216, 225]]
   \<and> map (\<lambda>c. map bottom (snd c)) (containers ax) = [[0, 0, 0, 0], [1100, 1144, 1241, 1370]]
   \<and> \<not> sorted [''Pituitary'', ''Glioma'']
   \<and> map_of [(''Class Name'', [Str ''Pituitary'', Str ''Glioma'']),
             (''Training'', [Num 1370, Num 1100])] ''Class Name''
     = Some [Str ''Pituitary'', Str ''Glioma'']
   \<and> build_table [(''Class Name'', [Str ''Pituitary'', Str ''Glioma'']),
                  (''Training'', [Num 1370, Num 1100])]
     = Inr \<lparr>index_name = Some ''Class Name'', index = [Str ''Pituitary'', Str ''Glioma''],
            columns = [(''Training'', [Num 1370, Num 1100])]\<rparr>
   \<and> plot_bar_stacked
         \<lparr>index_name = Some ''Class Name'', index = [Str ''Pituitary'', Str ''Glioma''],
          columns = [(''Training'', [Num 1370, Num 1100])]\<rparr>
     = Inr \<lparr>title = [], xlabel = ''Class Name'', ylabel = [],
            xticklabels = [Str ''Pituitary'', Str ''Glioma''],
            containers = [(''Training'', [\<lparr>xpos = 0, bottom = 0, height = 1370\<rparr>,
                                         \<lparr>xpos = 1, bottom = 0, height = 1100\<rparr>])],
            axes_legend = Some \<lparr>legend_title = None, entries = [''Training'']\<rparr>\<rparr>"
proof -
  have m1: "map_of data ''Class Name''
     = Some [Str ''Glioma'', Str ''Meningioma'', Str ''No tumor'', Str ''Pituitary'']"
    by (simp add: data_def)
  have m2: "map_of [(''Class Name'', [Str ''Pituitary'', Str ''Glioma'']),
           (''Training'', [Num 1370, Num 1100])] ''Class Name''
     = Some [Str ''Pituitary'', Str ''Glioma'']"
    by simp
  have b2: "build_table [(''Class Name'', [Str ''Pituitary'', Str ''Glioma'']),
                  (''Training'', [Num 1370, Num 1100])]
     = Inr \<lparr>index_name = Some ''Class Name'', index = [Str ''Pituitary'', Str ''Glioma''],
            columns = [(''Training'', [Num 1370, Num 1100])]\<rparr>"
    by (simp add: build_table_def DataFrame_def set_index_def)
  have u: "\<not> sorted [''Pituitary'', ''Glioma'']"
    by simp
  have p2: "plot_bar_stacked
         \<lparr>index_name = Some ''Class Name'', index = [Str ''Pituitary'', Str ''Glioma''],
          columns = [(''Training'', [Num 1370, Num 1100])]\<rparr>
     = Inr \<lparr>title = [], xlabel = ''Class Name'', ylabel = [],
            xticklabels = [Str ''Pituitary'', Str ''Glioma''],
            containers = [(''Training'', [\<lparr>xpos = 0, bottom = 0, height = 1370\<rparr>,
                                         \<lparr>xpos = 1, bottom = 0, height = 1100\<rparr>])],
            axes_legend = Some \<lparr>legend_title = None, entries = [''Training'']\<rparr>\<rparr>"
    by (simp add: plot_bar_stacked_def numeric_data_def map_filter_simps numeric_column_def
          numeric_dtype_def add_containers_def bar_height_def float64_exact)
  from build_table_keeps_declaration_order [OF m1 build_table_data]
  have i1: "index df = [Str ''Glioma'', Str ''Meningioma'', Str ''No tumor'', Str ''Pituitary'']"
    by simp
  from build_table_keeps_declaration_order [OF m1 build_table_data] plot_bar_stacked_df
  have x1: "xticklabels ax = [Str ''Glioma'', Str ''Meningioma'', Str ''No tumor'', Str ''Pituitary'']"
    by fastforce
  have c1: "map (\<lambda>c. map xpos (snd c)) (containers ax) = [[0, 1, 2, 3], [0, 1, 2, 3]]"
    "map (\<lambda>c. map height (snd c)) (containers ax) = [[1100, 1144, 1241, 1370], [221, 195, 216, 225]]"
    "map (\<lambda>c. map bottom (snd c)) (containers ax) = [[0, 0, 0, 0], [1100, 1144, 1241, 1370]]"
    by (simp_all add: ax_def)
  from build_table_keeps_declaration_order [OF m2 b2]
  have "index \<lparr>index_name = Some ''Class Name'', index = [Str ''Pituitary'', Str ''Glioma''],
            columns = [(''Training'', [Num 1370, Num 1100])]\<rparr> = [Str ''Pituitary'', Str ''Glioma'']"
    by simp
  with m1 build_table_data i1 plot_bar_stacked_df x1 c1 u m2 b2 p2 show ?thesis
    by simp
qed

subsection \<open>Running the script\<close>

text \<open>Lines 12 and 15, run in any store, bind \<^verbatim>\<open>df\<close> to what \<open>build_table\<close> makes of \<^verbatim>\<open>data\<close>.\<close>

lemma exec_build_table:
  "exec [line12, line15] s =
     (case build_table (data_var s) of
        Inl e \<Rightarrow> Inl e
      | Inr t \<Rightarrow> Inr (s\<lparr>df_var := Some t\<rparr>))"
  by (simp add: line12_def line15_def build_table_def split: sum.splits)

text \<open>
  The statements after line 15 write \<^verbatim>\<open>ax\<close> or the display only, and line 15 moves the
  category column into the index without touching a value.
\<close>

lemma later_lines_frame:
  assumes "c \<in> set [line18, line21, line22, line23, line26, line30]" and "c s = Inr s'"
  shows "data_var s' = data_var s \<and> df_var s' = df_var s"
  using assms
  by (auto simp: line18_def line21_def line22_def line23_def line26_def line30_def on_ax_def
      split: option.splits sum.splits)

lemma map_of_filter_other:
  "nm \<noteq> key \<Longrightarrow> map_of (filter (\<lambda>kv. fst kv \<noteq> key) cs) nm = map_of cs nm"
  by (induction cs) auto

lemma line15_keeps_values:
  assumes "line15 s = Inr s'" and "df_var s = Some f"
  shows "data_var s' = data_var s
       \<and> (\<exists>f'. df_var s' = Some f'
             \<and> map_of (columns f) ''Class Name'' = Some (index f')
             \<and> (\<forall>nm. nm \<noteq> ''Class Name'' \<longrightarrow> map_of (columns f') nm = map_of (columns f) nm))"
  using assms
  by (auto simp: line15_def set_index_def map_of_filter_other split: option.splits)

text \<open>
  C8. The script runs to its end, and in each of the eight stores it passes through
  \<^verbatim>\<open>data\<close> is the literal dict. The table holds the four category names, as the column
  \<^verbatim>\<open>Class Name\<close> when it is constructed and as the index after line 15, and the literal
  Training and Testing values in every store; from line 15 on the table is the same in
  every store, so plotting, labelling and display leave it unchanged.
\<close>

theorem script_leaves_data_unchanged:
  "case trace script (store0 data) of
     Inl e \<Rightarrow> False
   | Inr ss \<Rightarrow>
       length ss = 8
     \<and> map data_var ss = replicate 8 data
     \<and> map_option (\<lambda>f. map_of (columns f) ''Class Name'') (df_var (ss ! 0))
         = Some (Some [Str ''Glioma'', Str ''Meningioma'', Str ''No tumor'', Str ''Pituitary''])
     \<and> map (\<lambda>s. map_option index (df_var s)) (drop 1 ss)
         = replicate 7 (Some [Str ''Glioma'', Str ''Meningioma'', Str ''No tumor'', Str ''Pituitary''])
     \<and> map (\<lambda>s. map_option (\<lambda>f. map_of (columns f) ''Training'') (df_var s)) ss
         = replicate 8 (Some (Some [Num 1100, Num 1144, Num 1241, Num 1370]))
     \<and> map (\<lambda>s. map_option (\<lambda>f. map_of (columns f) ''Testing'') (df_var s)) ss
         = replicate 8 (Some (Some [Num 221, Num 195, Num 216, Num 225]))
     \<and> map df_var (drop 1 ss) = replicate 7 (Some df)"
  by (simp add: script_def store0_def line12_def line15_def line18_def line21_def line22_def
        line23_def line26_def line30_def on_ax_def DataFrame_def RangeIndex_def set_index_def
        plot_bar_stacked_def numeric_data_def map_filter_simps numeric_column_def
        numeric_dtype_def add_containers_def bar_height_def float64_exact
        set_title_def set_xlabel_def set_ylabel_def legend_def
        data_def df_def eval_nat_numeral)


subsection \<open>The texts of the chart\<close>

lemma render_texts:
  assumes "render t ti xl yl lt = Inr a"
  shows "title a = ti \<and> xlabel a = xl \<and> ylabel a = yl
       \<and> xticklabels a = index t
       \<and> axes_legend a = Some \<lparr>legend_title = Some lt,
                            entries = filter legendable (map fst (containers a))\<rparr>"
  using assms
  by (auto simp: render_def set_title_def set_xlabel_def set_ylabel_def legend_def
        plot_bar_stacked_def Let_def split: sum.splits if_splits)

lemma render_df_any:
  "render df ti xl yl lt =
     Inr (ax\<lparr>title := ti, xlabel := xl, ylabel := yl,
             axes_legend := Some \<lparr>legend_title = Some lt, entries = [''Training'', ''Testing'']\<rparr>\<rparr>)"
  by (simp add: render_def plot_bar_stacked_df set_title_def set_xlabel_def set_ylabel_def
        legend_def)
     (simp add: ax_def)

text \<open>
  C9. Whatever title, axis labels and legend title are given, rendering the script's
  table succeeds and the chart carries that title, that x label and that y label, and
  a legend with the given title whose entries are the series names Training and
  Testing, the labels of the two bar containers.
\<close>

theorem render_applies_texts_and_legend:
  "case render df ti xl yl lt of
     Inl e \<Rightarrow> False
   | Inr a \<Rightarrow>
       title a = ti \<and> xlabel a = xl \<and> ylabel a = yl
     \<and> map fst (containers a) = [''Training'', ''Testing'']
     \<and> axes_legend a = Some \<lparr>legend_title = Some lt, entries = [''Training'', ''Testing'']\<rparr>"
  by (simp add: render_df_any) (simp add: ax_def)

lemma render_df:
  "render df ''Brain Tumor Image Dataset (Training vs Testing)''
      ''Tumor Class'' ''Number of Images'' ''Subset'' = Inr ax"
  by (simp add: render_df_any) (simp add: ax_def)

lemma exec_script:
  "exec script (store0 d) =
     (case build_table d of
        Inl e \<Rightarrow> Inl e
      | Inr t \<Rightarrow>
          (case render t ''Brain Tumor Image Dataset (Training vs Testing)''
                  ''Tumor Class'' ''Number of Images'' ''Subset'' of
             Inl e \<Rightarrow> Inl e
           | Inr a \<Rightarrow> Inr \<lparr>data_var = d, df_var = Some t, ax_var = Some a, shown = True\<rparr>))"
  by (simp add: script_def store0_def line12_def line15_def line18_def line21_def line22_def
        line23_def line26_def line30_def on_ax_def build_table_def render_def
      split: sum.splits)

text \<open>
  C10. Whenever the script runs to its end, on whatever dict, the chart's title is
  \<^verbatim>\<open>Brain Tumor Image Dataset (Training vs Testing)\<close>, its x label \<^verbatim>\<open>Tumor Class\<close>, its
  y label \<^verbatim>\<open>Number of Images\<close> and its legend title \<^verbatim>\<open>Subset\<close>: the four texts are
  constants of the script and do not depend on the data.
\<close>

theorem script_texts_fixed:
  assumes "exec script (store0 d) = Inr s"
  shows "\<exists>a. ax_var s = Some a
           \<and> title a = ''Brain Tumor Image Dataset (Training vs Testing)''
           \<and> xlabel a = ''Tumor Class''
           \<and> ylabel a = ''Number of Images''
           \<and> map_option legend_title (axes_legend a) = Some (Some ''Subset'')"
proof (cases "build_table d")
  case (Inl e)
  with assms show ?thesis unfolding exec_script by simp
next
  case t: (Inr t)
  show ?thesis
  proof (cases "render t ''Brain Tumor Image Dataset (Training vs Testing)''
                  ''Tumor Class'' ''Number of Images'' ''Subset''")
    case (Inl e)
    with assms t show ?thesis unfolding exec_script by simp
  next
    case (Inr a)
    with assms t have "ax_var s = Some a" unfolding exec_script by auto
    with render_texts [OF Inr] show ?thesis by simp
  qed
qed


theorem script_texts_fixed_witness:
  "exec script (store0 data)
     = Inr \<lparr>data_var = data, df_var = Some df, ax_var = Some ax, shown = True\<rparr>
   \<and> title ax = ''Brain Tumor Image Dataset (Training vs Testing)''
   \<and> xlabel ax = ''Tumor Class''
   \<and> ylabel ax = ''Number of Images''
   \<and> map_option legend_title (axes_legend ax) = Some (Some ''Subset'')"
proof -
  have e: "exec script (store0 data)
     = Inr \<lparr>data_var = data, df_var = Some df, ax_var = Some ax, shown = True\<rparr>"
    unfolding exec_script by (simp add: build_table_data render_df)
  from script_texts_fixed [OF e] e show ?thesis by simp
qed

end
